theory Spec2Isabelle
  imports Complex_Main "HOL-Library.Log_Nat"
begin

section \<open>The A/B testing manager of \<^verbatim>\<open>services/learning-optimizer.py\<close>\<close>

text \<open>
  The development embeds the class \<^verbatim>\<open>ABTestManager\<close> and the dataclasses it works on.

  Conventions of the embedding:
  \<^item> Python's unbounded integers are \<open>int\<close>. The float fields of a variant and the
    statistics of a test hold finite values and are read as the real numbers they denote.
    The two computations whose outcome depends on rounding are carried out in double
    precision, on the type \<open>double\<close> of the section on floating-point numbers: the sum and
    the comparison of the allocation check of \<^verbatim>\<open>start_test\<close>, and the method
    \<^verbatim>\<open>_update_running_average\<close>.
  \<^item> A \<^verbatim>\<open>datetime\<close> is the number of microseconds since some epoch; the \<^verbatim>\<open>.days\<close>
    of a difference is the floor of the difference over one day, as \<^verbatim>\<open>timedelta\<close>
    normalises it. Every method reads the clock once: \<open>now\<close> is its argument.
  \<^item> A dictionary whose iteration order is used is an association list in insertion
    order; the two registries are maps from test ids to tests.
  \<^item> An exception is a branch of the model. The methods of the manager swallow their
    exceptions in \<^verbatim>\<open>except Exception\<close>, and the model returns what the handler returns,
    with the mutations made before the raise kept; \<^verbatim>\<open>create_ab_test\<close> alone raises again,
    and the model returns the error.
  \<^item> Objects are held by value: a test is identified by its key in the registry, a
    variant by its place in the test. Two tests sharing one variant object are not
    represented.
\<close>

subsection \<open>Data model\<close>

type_synonym datetime = int

definition day :: int where
  "day = 86400000000"

definition days_between :: "datetime \<Rightarrow> datetime \<Rightarrow> int" where
  \<comment> \<open>\<^verbatim>\<open>(a - b).days\<close>\<close>
  "days_between a b = (a - b) div day"

datatype TestType = AB_TEST | MULTIVARIATE | SEQUENTIAL | ADAPTIVE

datatype TestStatus = PLANNING | RUNNING | COMPLETED | PAUSED | CANCELLED

datatype SignificanceLevel = HIGH | MEDIUM | LOW

fun level_value :: "SignificanceLevel \<Rightarrow> real" where
  "level_value HIGH = 0.01"
| "level_value MEDIUM = 0.05"
| "level_value LOW = 0.1"


text \<open>
  The payloads \<^verbatim>\<open>content\<close> and \<^verbatim>\<open>design\<close> are dictionaries from strings to strings,
  kept in insertion order.
\<close>

type_synonym payload = "(string \<times> string) list"

record TestVariant =
  variant_id :: string
  name :: string
  description :: string
  traffic_allocation :: real
  content :: payload
  design :: payload
  visitors :: int
  conversions :: int
  conversion_rate :: real
  bounce_rate :: real
  time_on_page :: real
  scroll_depth :: real
  engagement_score :: real
  revenue :: real
  revenue_per_visitor :: real
  created_at :: "datetime option"
  last_updated :: "datetime option"

record ABTest =
  test_id :: string
  test_name :: string
  test_description :: string
  test_type :: TestType
  status :: TestStatus
  primary_metric :: string
  secondary_metrics :: "string list"
  significance_level :: SignificanceLevel
  minimum_sample_size :: int
  minimum_duration_days :: int
  maximum_duration_days :: int
  control_variant :: TestVariant
  test_variants :: "TestVariant list"
  winner_variant_id :: "string option"
  statistical_significance :: bool
  confidence_interval :: "(real \<times> real) option"
  p_value :: "real option"
  effect_size :: "real option"
  created_by :: "string option"
  test_created_at :: "datetime option"
  started_at :: "datetime option"
  ended_at :: "datetime option"
  insights :: "string list option"
  recommendations :: "string list option"

record LearningUpdate =
  update_id :: string
  source_test_id :: string
  pattern_type :: string
  learned_insights :: "string list"
  performance_improvement :: real
  confidence_score :: real
  applicable_contexts :: "string list"
  learning_created_at :: datetime

text \<open>
  The manager: the two registries and the learning store. The thresholds
  \<^verbatim>\<open>significance_threshold\<close> and \<^verbatim>\<open>minimum_detectable_effect\<close> are set to 0.05 by
  \<^verbatim>\<open>__init__\<close> and never assigned again (the \<^verbatim>\<open>config\<close> dictionary is stored, not read).
  The machine-learning models take no part in any decision of the manager and are left out.
\<close>

record ABTestManager =
  active_tests :: "string \<rightharpoonup> ABTest"
  completed_tests :: "string \<rightharpoonup> ABTest"
  learned_patterns :: "LearningUpdate list"

definition significance_threshold :: real where
  "significance_threshold = 0.05"

definition minimum_detectable_effect :: real where
  "minimum_detectable_effect = 0.05"

definition init_manager :: ABTestManager where
  "init_manager = \<lparr>active_tests = Map.empty, completed_tests = Map.empty, learned_patterns = []\<rparr>"

subsection \<open>Floating-point numbers\<close>

text \<open>
  A Python float is an IEEE 754 binary64 number: a finite value, an infinity or NaN. The
  sign of a zero and the payload of a NaN are not represented. Every operation computes the
  exact result and rounds it to the nearest double, a tie going to the even significand;
  a result whose magnitude rounds to \<open>2 ^ 1024\<close> or more is an infinity.

  \<open>binary_exponent x\<close> is the integer \<open>e\<close> with \<open>2 ^ e \<le> \<bar>x\<bar> < 2 ^ (e + 1)\<close>, for \<open>x\<close> other
  than 0. The doubles of that binade are the multiples of \<open>2 ^ (e - 52)\<close>; below
  \<open>2 ^ (- 1022)\<close> they are the multiples of \<open>2 ^ (- 1074)\<close>.
\<close>

datatype error = ZeroDivisionError | UnicodeEncodeError | OverflowError

datatype double = Finite real | PInf | NInf | NaN

definition binary_exponent :: "real \<Rightarrow> int" where
  "binary_exponent x =
     (if 1 \<le> \<bar>x\<bar> then bitlen \<lfloor>\<bar>x\<bar>\<rfloor> - 1 else - bitlen (\<lceil>1 / \<bar>x\<bar>\<rceil> - 1))"

definition round_half_even :: "real \<Rightarrow> int" where
  "round_half_even x =
     (let n = \<lfloor>x\<rfloor>; r = x - of_int n
      in if r < 1 / 2 then n else if 1 / 2 < r then n + 1 else if even n then n else n + 1)"

definition round_double :: "real \<Rightarrow> double" where
  "round_double x =
     (if x = 0 then Finite 0
      else
        let e = max (binary_exponent x) (- 1022);
            ulp = 2 powi (e - 52);
            m = round_half_even (x / ulp)
        in if 1023 < e \<or> (e = 1023 \<and> \<bar>m\<bar> = 2 ^ 53) then (if 0 < x then PInf else NInf)
           else Finite (of_int m * ulp))"

definition py_float :: "real \<Rightarrow> double" where
  \<comment> \<open>the float a decimal literal denotes, and the float that holds a given value\<close>
  "py_float x = round_double x"

definition signed_infinity :: "bool \<Rightarrow> double" where
  "signed_infinity positive = (if positive then PInf else NInf)"

fun fneg :: "double \<Rightarrow> double" where
  "fneg (Finite x) = Finite (- x)"
| "fneg PInf = NInf"
| "fneg NInf = PInf"
| "fneg NaN = NaN"

fun fabs :: "double \<Rightarrow> double" where
  "fabs (Finite x) = Finite \<bar>x\<bar>"
| "fabs PInf = PInf"
| "fabs NInf = PInf"
| "fabs NaN = NaN"

fun fadd :: "double \<Rightarrow> double \<Rightarrow> double" where
  "fadd (Finite x) (Finite y) = round_double (x + y)"
| "fadd NaN b = NaN"
| "fadd a NaN = NaN"
| "fadd PInf NInf = NaN"
| "fadd NInf PInf = NaN"
| "fadd PInf b = PInf"
| "fadd NInf b = NInf"
| "fadd (Finite x) b = b"

definition fsub :: "double \<Rightarrow> double \<Rightarrow> double" where
  "fsub a b = fadd a (fneg b)"

fun fmul :: "double \<Rightarrow> double \<Rightarrow> double" where
  "fmul (Finite x) (Finite y) = round_double (x * y)"
| "fmul NaN b = NaN"
| "fmul a NaN = NaN"
| "fmul (Finite x) PInf = (if x = 0 then NaN else signed_infinity (0 < x))"
| "fmul (Finite x) NInf = (if x = 0 then NaN else signed_infinity (x < 0))"
| "fmul PInf (Finite y) = (if y = 0 then NaN else signed_infinity (0 < y))"
| "fmul NInf (Finite y) = (if y = 0 then NaN else signed_infinity (y < 0))"
| "fmul PInf PInf = PInf"
| "fmul PInf NInf = NInf"
| "fmul NInf PInf = NInf"
| "fmul NInf NInf = PInf"

fun fdiv :: "double \<Rightarrow> double \<Rightarrow> error + double" where
  \<comment> \<open>Python raises on a divisor that is zero\<close>
  "fdiv a (Finite y) =
     (if y = 0 then Inl ZeroDivisionError
      else Inr (case a of
                  Finite x \<Rightarrow> round_double (x / y)
                | PInf \<Rightarrow> signed_infinity (0 < y)
                | NInf \<Rightarrow> signed_infinity (y < 0)
                | NaN \<Rightarrow> NaN))"
| "fdiv a NaN = Inr NaN"
| "fdiv (Finite x) b = Inr (Finite 0)"
| "fdiv a b = Inr NaN"

fun flt :: "double \<Rightarrow> double \<Rightarrow> bool" where
  \<comment> \<open>\<^verbatim>\<open>a < b\<close>; every comparison with NaN is false\<close>
  "flt (Finite x) (Finite y) = (x < y)"
| "flt NaN b = False"
| "flt a NaN = False"
| "flt a NInf = False"
| "flt PInf b = False"
| "flt a PInf = True"
| "flt NInf b = True"

definition float_of_int :: "int \<Rightarrow> error + double" where
  \<comment> \<open>the conversion of an integer operand of a float operation: the nearest double, and
      \<^verbatim>\<open>OverflowError\<close> for an integer too large for a float\<close>
  "float_of_int n =
     (case round_double (of_int n) of Finite x \<Rightarrow> Inr (Finite x) | _ \<Rightarrow> Inl OverflowError)"


subsection \<open>Running averages\<close>

definition update_running_average :: "double \<Rightarrow> double \<Rightarrow> int \<Rightarrow> error + double" where
  \<comment> \<open>\<^verbatim>\<open>((current_avg * (count - 1)) + new_value) / count\<close>: each integer operand is
      converted to a float, and each operation rounds\<close>
  "update_running_average current_avg new_value count =
     (if count \<le> 1 then Inr new_value
      else
        case float_of_int (count - 1) of
          Inl e \<Rightarrow> Inl e
        | Inr weight \<Rightarrow>
            (case float_of_int count of
               Inl e \<Rightarrow> Inl e
             | Inr n \<Rightarrow> fdiv (fadd (fmul current_avg weight) new_value) n))"

text \<open>
  Folding the rule over a sequence of values: the \<open>k\<close>-th value is entered with count \<open>k\<close>,
  as the recorder does when every event carries the metric.
\<close>

fun fold_running_average :: "double \<Rightarrow> int \<Rightarrow> double list \<Rightarrow> error + double" where
  "fold_running_average avg count [] = Inr avg"
| "fold_running_average avg count (x # xs) =
     (case update_running_average avg x count of
        Inl e \<Rightarrow> Inl e
      | Inr avg' \<Rightarrow> fold_running_average avg' (count + 1) xs)"

text \<open>
  The same rule on real numbers. It is what the recorder below applies to the fields of a
  variant, which are read as real numbers; the method on doubles agrees with it as long as no
  operation rounds (lemma \<open>update_exact\<close>).
\<close>

definition update_running_average_real :: "real \<Rightarrow> real \<Rightarrow> int \<Rightarrow> real" where
  "update_running_average_real current_avg new_value count =
     (if count \<le> 1 then new_value
      else ((current_avg * real_of_int (count - 1)) + new_value) / real_of_int count)"


subsection \<open>External libraries\<close>

text \<open>
  What the manager obtains from libraries outside the repository is a parameter of the
  model:
  \<^item> \<open>ttest_power L effect_size power alpha\<close>: the call of statsmodels' \<^verbatim>\<open>ttest_power\<close> with
    these keyword arguments; \<open>None\<close> when it raises or returns no finite number;
  \<^item> \<open>md5_prefix L name now\<close>: the first eight hexadecimal digits of the MD5 digest of
    the UTF-8 encoding of \<^verbatim>\<open>f'{name}_{now}'\<close>; \<open>None\<close> when the name holds a code point
    that UTF-8 cannot encode (a lone surrogate), on which \<^verbatim>\<open>.encode()\<close> raises;
  \<^item> \<open>chi2_contingency L a b c d\<close>: the statistic and the p-value scipy returns for the
    table \<^verbatim>\<open>[[a, b], [c, d]]\<close>; \<open>None\<close> when it raises;
  \<^item> \<open>normal_ttest_ind L m1 s1 n1 m2 s2 n2\<close>: the statistic and the p-value of \<^verbatim>\<open>ttest_ind\<close> on
    two samples drawn by \<^verbatim>\<open>np.random.normal\<close> with these means, deviations and sizes;
    \<open>None\<close> when the drawing or the test raises;
  \<^item> \<open>format_1f L\<close> and \<open>format_4f L\<close>: the format specifications \<^verbatim>\<open>:.1f\<close> and \<^verbatim>\<open>:.4f\<close>.
\<close>

record Libraries =
  ttest_power :: "real \<Rightarrow> real \<Rightarrow> real \<Rightarrow> real option"
  md5_prefix :: "string \<Rightarrow> datetime \<Rightarrow> string option"
  chi2_contingency :: "int \<Rightarrow> int \<Rightarrow> int \<Rightarrow> int \<Rightarrow> (real \<times> real) option"
  normal_ttest_ind :: "real \<Rightarrow> real \<Rightarrow> int \<Rightarrow> real \<Rightarrow> real \<Rightarrow> int \<Rightarrow> (real \<times> real) option"
  format_1f :: "real \<Rightarrow> string"
  format_4f :: "real \<Rightarrow> string"

subsection \<open>Creating and starting a test\<close>

definition py_int :: "real \<Rightarrow> int" where
  \<comment> \<open>\<^verbatim>\<open>int(x)\<close> truncates towards zero\<close>
  "py_int x = (if 0 \<le> x then \<lfloor>x\<rfloor> else \<lceil>x\<rceil>)"

definition calculate_sample_size ::
    "Libraries \<Rightarrow> real \<Rightarrow> real \<Rightarrow> real \<Rightarrow> real \<Rightarrow> error + int" where
  \<comment> \<open>the bare \<^verbatim>\<open>except\<close> takes every failure of the power analysis to the fallback,
      whose own division is not guarded\<close>
  "calculate_sample_size L alpha pwr effect baseline_rate =
     (let fallback =
            (if effect = 0 then Inl ZeroDivisionError
             else Inr (max 2000 (py_int (16 * (1 / effect) ^ 2))))
      in case ttest_power L effect pwr alpha of
           None \<Rightarrow> fallback
         | Some sample_size \<Rightarrow>
             if baseline_rate = 0 then fallback
             else Inr (max (py_int (sample_size / baseline_rate)) 1000))"

definition create_ab_test ::
    "Libraries \<Rightarrow> datetime \<Rightarrow> ABTestManager \<Rightarrow> string \<Rightarrow> string \<Rightarrow> TestVariant \<Rightarrow>
     TestVariant list \<Rightarrow> string \<Rightarrow> SignificanceLevel \<Rightarrow> error + (string \<times> ABTestManager)" where
  \<comment> \<open>the handler of the method logs and raises again: \<open>Inl\<close> is the exception that
      leaves the method, with nothing stored\<close>
  "create_ab_test L now s nm descr control tests metric level =
     (case md5_prefix L nm now of
        None \<Rightarrow> Inl UnicodeEncodeError
      | Some digest \<Rightarrow>
          let tid = ''test_'' @ digest in
          case calculate_sample_size L (level_value level) 0.8 minimum_detectable_effect 0.1 of
            Inl e \<Rightarrow> Inl e
          | Inr sample_size \<Rightarrow>
              let ab_test = \<lparr>
                    test_id = tid,
                    test_name = nm,
                    test_description = descr,
                    test_type = AB_TEST,
                    status = PLANNING,
                    primary_metric = metric,
                    secondary_metrics = [''bounce_rate'', ''time_on_page'', ''engagement_score''],
                    significance_level = level,
                    minimum_sample_size = sample_size,
                    minimum_duration_days = 7,
                    maximum_duration_days = 30,
                    control_variant = control,
                    test_variants = tests,
                    winner_variant_id = None,
                    statistical_significance = False,
                    confidence_interval = None,
                    p_value = None,
                    effect_size = None,
                    created_by = None,
                    test_created_at = Some now,
                    started_at = None,
                    ended_at = None,
                    insights = Some [],
                    recommendations = Some [] \<rparr>
              in Inr (tid, s\<lparr>active_tests := (active_tests s)(tid \<mapsto> ab_test)\<rparr>))"

definition total_allocation :: "ABTest \<Rightarrow> double" where
  \<comment> \<open>the running sum of the check, in the order of the loop; every addition rounds\<close>
  "total_allocation t =
     foldl (\<lambda>total v. fadd total (py_float (traffic_allocation v)))
       (py_float (traffic_allocation (control_variant t))) (test_variants t)"

definition validate_test_configuration :: "ABTest \<Rightarrow> bool" where
  \<comment> \<open>\<^verbatim>\<open>abs(total_allocation - 1.0) > 0.01\<close> on floats\<close>
  "validate_test_configuration t =
     (if flt (py_float 0.01) (fabs (fsub (total_allocation t) (Finite 1))) then False
      else if minimum_sample_size t < 100 then False
      else if minimum_duration_days t < 1 then False
      else True)"

definition start_test :: "datetime \<Rightarrow> ABTestManager \<Rightarrow> string \<Rightarrow> bool \<times> ABTestManager" where
  \<comment> \<open>the three \<^verbatim>\<open>ValueError\<close>s are raised and caught inside the method, which returns
      \<^verbatim>\<open>False\<close>\<close>
  "start_test now s tid =
     (case active_tests s tid of
        None \<Rightarrow> (False, s)
      | Some t \<Rightarrow>
          if status t \<noteq> PLANNING then (False, s)
          else if \<not> validate_test_configuration t then (False, s)
          else (True, s\<lparr>active_tests :=
                  (active_tests s)(tid \<mapsto> t\<lparr>status := RUNNING, started_at := Some now\<rparr>)\<rparr>))"

subsection \<open>Statistical analysis\<close>

record StatResult =
  significant :: bool
  result_p_value :: real
  result_effect_size :: "real option"
  result_confidence_interval :: "(real \<times> real) option"
  test_statistic :: "real option"

definition failed_result :: StatResult where
  \<comment> \<open>\<^verbatim>\<open>{'significant': False, 'p_value': 1.0}\<close>\<close>
  "failed_result =
     \<lparr>significant = False, result_p_value = 1, result_effect_size = None,
      result_confidence_interval = None, test_statistic = None\<rparr>"

definition chi_square_test :: "Libraries \<Rightarrow> TestVariant \<Rightarrow> TestVariant \<Rightarrow> StatResult" where
  \<comment> \<open>the standard error divides a Python float by the visitor counts: a count of zero
      raises, and the handler returns the failed result\<close>
  "chi_square_test L control test_variant =
     (case chi2_contingency L
             (conversions control) (visitors control - conversions control)
             (conversions test_variant) (visitors test_variant - conversions test_variant) of
        None \<Rightarrow> failed_result
      | Some (chi2, p) \<Rightarrow>
          let n = visitors control + visitors test_variant;
              effect = sqrt (chi2 / (real_of_int n * (min 2 2 - 1)));
              p1 = conversion_rate control;
              p2 = conversion_rate test_variant;
              n1 = visitors control;
              n2 = visitors test_variant;
              diff = p2 - p1
          in if n1 = 0 \<or> n2 = 0 then failed_result
             else
               let se = sqrt ((p1 * (1 - p1) / real_of_int n1) + (p2 * (1 - p2) / real_of_int n2));
                   ci_lower = diff - 1.96 * se;
                   ci_upper = diff + 1.96 * se
               in \<lparr>significant = p < significance_threshold,
                   result_p_value = p,
                   result_effect_size = Some effect,
                   result_confidence_interval = Some (ci_lower, ci_upper),
                   test_statistic = Some chi2\<rparr>)"

text \<open>
  \<^verbatim>\<open>getattr(variant, metric, 0)\<close> as a number: the value of a numeric field, 0 for a name
  that is no field, and \<open>None\<close> for a field that holds no number (a string, a dictionary,
  a date or \<^verbatim>\<open>None\<close>), on which the arithmetic of the callers raises \<^verbatim>\<open>TypeError\<close>. The
  attributes Python adds to every object (names with two underscores) are not
  represented.
\<close>

definition getattr_number :: "TestVariant \<Rightarrow> string \<Rightarrow> real option" where
  "getattr_number v metric =
     (if metric = ''traffic_allocation'' then Some (traffic_allocation v)
      else if metric = ''visitors'' then Some (real_of_int (visitors v))
      else if metric = ''conversions'' then Some (real_of_int (conversions v))
      else if metric = ''conversion_rate'' then Some (conversion_rate v)
      else if metric = ''bounce_rate'' then Some (bounce_rate v)
      else if metric = ''time_on_page'' then Some (time_on_page v)
      else if metric = ''scroll_depth'' then Some (scroll_depth v)
      else if metric = ''engagement_score'' then Some (engagement_score v)
      else if metric = ''revenue'' then Some (revenue v)
      else if metric = ''revenue_per_visitor'' then Some (revenue_per_visitor v)
      else if metric \<in> set [''variant_id'', ''name'', ''description'', ''content'', ''design'',
                              ''created_at'', ''last_updated''] then None
      else Some 0)"

definition t_test :: "Libraries \<Rightarrow> TestVariant \<Rightarrow> TestVariant \<Rightarrow> string \<Rightarrow> StatResult" where
  \<comment> \<open>after the test, the pooled deviation divides by \<^verbatim>\<open>n1 + n2 - 2\<close> and the standard
      error by each sample size: a zero there raises, and the handler returns the failed
      result\<close>
  "t_test L control test_variant metric =
     (case (getattr_number control metric, getattr_number test_variant metric) of
        (Some control_mean, Some test_mean) \<Rightarrow>
          let control_std = control_mean * 0.2;
              test_std = test_mean * 0.2;
              n1 = visitors control;
              n2 = visitors test_variant
          in (case normal_ttest_ind L control_mean control_std n1 test_mean test_std n2 of
                None \<Rightarrow> failed_result
              | Some (t_statistic, p) \<Rightarrow>
                  if n1 + n2 - 2 = 0 \<or> n1 = 0 \<or> n2 = 0 then failed_result
                  else
                    let pooled_std =
                          sqrt ((real_of_int (n1 - 1) * control_std ^ 2 +
                                 real_of_int (n2 - 1) * test_std ^ 2) /
                                real_of_int (n1 + n2 - 2));
                        effect = (test_mean - control_mean) / pooled_std;
                        se = pooled_std * sqrt (1 / real_of_int n1 + 1 / real_of_int n2);
                        diff = test_mean - control_mean;
                        ci_lower = diff - 1.96 * se;
                        ci_upper = diff + 1.96 * se
                    in \<lparr>significant = p < significance_threshold,
                        result_p_value = p,
                        result_effect_size = Some \<bar>effect\<bar>,
                        result_confidence_interval = Some (ci_lower, ci_upper),
                        test_statistic = Some t_statistic\<rparr>)
      | _ \<Rightarrow> failed_result)"

definition stat_test :: "Libraries \<Rightarrow> ABTest \<Rightarrow> TestVariant \<Rightarrow> StatResult" where
  \<comment> \<open>the test the analysis runs on the control and the one treatment variant, chosen by
      the primary metric\<close>
  "stat_test L t tv =
     (if primary_metric t = ''conversion_rate''
      then chi_square_test L (control_variant t) tv
      else t_test L (control_variant t) tv (primary_metric t))"

definition analyze_statistical_significance :: "Libraries \<Rightarrow> ABTest \<Rightarrow> StatResult \<times> ABTest" where
  \<comment> \<open>returns the result and the test as the method leaves it. The last case stands for a
      comparison of two attributes that are no numbers; \<open>t_test\<close> reports no significance
      for such an attribute, so the case is never taken\<close>
  "analyze_statistical_significance L t =
     (case test_variants t of
        [test_variant] \<Rightarrow>
          let control = control_variant t;
              result = stat_test L t test_variant;
              t1 = t\<lparr>p_value := Some (result_p_value result),
                     statistical_significance := significant result,
                     confidence_interval := result_confidence_interval result,
                     effect_size :=
                       Some (case result_effect_size result of None \<Rightarrow> 0 | Some x \<Rightarrow> x)\<rparr>
          in if significant result then
               (if primary_metric t = ''conversion_rate'' then
                  (result,
                   t1\<lparr>winner_variant_id :=
                        Some (if conversion_rate test_variant > conversion_rate control
                              then variant_id test_variant else variant_id control)\<rparr>)
                else
                  (case (getattr_number control (primary_metric t),
                         getattr_number test_variant (primary_metric t)) of
                     (Some control_mean, Some test_mean) \<Rightarrow>
                       (result,
                        t1\<lparr>winner_variant_id :=
                             Some (if test_mean > control_mean
                                   then variant_id test_variant else variant_id control)\<rparr>)
                   | _ \<Rightarrow> (failed_result, t1)))
             else (result, t1)
      | _ \<Rightarrow> (failed_result, t))"

subsection \<open>Insights and learning on completion\<close>

definition find_winner :: "ABTest \<Rightarrow> TestVariant option" where
  \<comment> \<open>the lookup both \<^verbatim>\<open>_generate_test_insights\<close> and \<^verbatim>\<open>_learn_from_test\<close> make; an empty
      id is falsy, as \<^verbatim>\<open>None\<close> is\<close>
  "find_winner t =
     (case winner_variant_id t of
        None \<Rightarrow> None
      | Some w \<Rightarrow>
          if w = [] then None
          else if variant_id (control_variant t) = w then Some (control_variant t)
          else find (\<lambda>v. variant_id v = w) (test_variants t))"

definition apostrophe :: string where
  "apostrophe = [CHR 0x27]"

definition variant_insights ::
    "Libraries \<Rightarrow> string \<Rightarrow> TestVariant \<Rightarrow> TestVariant \<Rightarrow> string list option" where
  \<comment> \<open>one round of the loop over the treatment variants; \<open>None\<close> when a division by a
      control value of zero raises\<close>
  "variant_insights L metric control variant =
     (if metric = ''conversion_rate'' \<and> conversion_rate control = 0 then None
      else
        let improvement =
              ((conversion_rate variant - conversion_rate control) / conversion_rate control) * 100;
            first =
              (if metric = ''conversion_rate'' then
                 (if improvement > 0
                  then [''Variant '' @ name variant @ '' improved conversion rate by '' @
                        format_1f L improvement @ ''%'']
                  else [''Variant '' @ name variant @ '' decreased conversion rate by '' @
                        format_1f L \<bar>improvement\<bar> @ ''%''])
               else [])
        in if engagement_score variant > engagement_score control then
             (if engagement_score control = 0 then None
              else
                let eng_improvement =
                      ((engagement_score variant - engagement_score control) /
                       engagement_score control) * 100
                in Some (first @ [''Variant '' @ name variant @ '' improved engagement by '' @
                                  format_1f L eng_improvement @ ''%'']))
           else Some first)"

fun all_variant_insights ::
    "Libraries \<Rightarrow> string \<Rightarrow> TestVariant \<Rightarrow> TestVariant list \<Rightarrow> string list option" where
  "all_variant_insights L metric control [] = Some []"
| "all_variant_insights L metric control (v # vs) =
     (case variant_insights L metric control v of
        None \<Rightarrow> None
      | Some here \<Rightarrow>
          (case all_variant_insights L metric control vs of
             None \<Rightarrow> None
           | Some later \<Rightarrow> Some (here @ later)))"

definition generate_specific_recommendations :: "TestVariant \<Rightarrow> string list" where
  "generate_specific_recommendations winner =
     (case map_of (content winner) ''headline'' of
        None \<Rightarrow> []
      | Some h \<Rightarrow> [''Use headline pattern: '' @ apostrophe @ take 50 h @ ''...'' @ apostrophe @
                   '' for similar campaigns'']) @
     (case map_of (content winner) ''cta_text'' of
        None \<Rightarrow> []
      | Some c \<Rightarrow> [''Apply CTA text: '' @ apostrophe @ c @ apostrophe @
                   '' to other landing pages'']) @
     (case map_of (design winner) ''color_scheme'' of
        None \<Rightarrow> []
      | Some c \<Rightarrow> [''Consider color scheme '' @ apostrophe @ c @ apostrophe @
                   '' for brand consistency'']) @
     (case map_of (design winner) ''layout'' of
        None \<Rightarrow> []
      | Some l \<Rightarrow> [''Implement '' @ apostrophe @ l @ apostrophe @ '' layout for similar pages''])"

definition generate_test_insights :: "Libraries \<Rightarrow> ABTest \<Rightarrow> ABTest" where
  \<comment> \<open>the two lists are assigned at the end: when anything before raises (a division by
      zero, or the formatting of a p-value that is \<^verbatim>\<open>None\<close>), the test keeps its lists\<close>
  "generate_test_insights L t =
     (case all_variant_insights L (primary_metric t) (control_variant t) (test_variants t) of
        None \<Rightarrow> t
      | Some comparison \<Rightarrow>
          (case p_value t of
             None \<Rightarrow> t
           | Some p \<Rightarrow>
               let verdict =
                     (if statistical_significance t
                      then ''Results are statistically significant (p-value: '' @
                           format_4f L p @ '')''
                      else ''Results are not statistically significant (p-value: '' @
                           format_4f L p @ '')'');
                   advice =
                     (case find_winner t of
                        None \<Rightarrow> []
                      | Some winner \<Rightarrow>
                          (''Implement variant '' @ apostrophe @ name winner @ apostrophe @
                           '' for improved performance'') #
                          generate_specific_recommendations winner)
               in t\<lparr>insights := Some (comparison @ [verdict]),
                     recommendations := Some advice\<rparr>))"

definition dict_eq :: "payload \<Rightarrow> payload \<Rightarrow> bool" where
  \<comment> \<open>equality of two dictionaries, whatever their insertion order\<close>
  "dict_eq a b =
     (list_all (\<lambda>(k, v). map_of b k = Some v) a \<and> list_all (\<lambda>(k, v). map_of a k = Some v) b)"

definition analyze_content_differences :: "payload \<Rightarrow> payload \<Rightarrow> string list" where
  "analyze_content_differences control_content winner_content =
     concat (map (\<lambda>(key, new).
        case map_of control_content key of
          None \<Rightarrow> [''Added content element: '' @ key]
        | Some old \<Rightarrow>
            if new \<noteq> old then [''Modified '' @ key @ '': '' @ old @ '' -> '' @ new] else [])
       winner_content)"

definition analyze_design_differences :: "payload \<Rightarrow> payload \<Rightarrow> string list" where
  "analyze_design_differences control_design winner_design =
     concat (map (\<lambda>(key, new).
        case map_of control_design key of
          None \<Rightarrow> [''Added design element: '' @ key]
        | Some old \<Rightarrow>
            if new \<noteq> old then [''Modified '' @ key @ '': '' @ old @ '' -> '' @ new] else [])
       winner_design)"

definition performance_improvement_of :: "ABTest \<Rightarrow> TestVariant \<Rightarrow> real option" where
  \<comment> \<open>\<open>None\<close> when the computation raises: a control conversion rate of zero, or a primary
      metric that names a field holding no number\<close>
  "performance_improvement_of t winner_variant =
     (let control = control_variant t in
      if primary_metric t = ''conversion_rate'' then
        (if conversion_rate control = 0 then None
         else Some ((conversion_rate winner_variant - conversion_rate control) /
                    conversion_rate control))
      else
        (case (getattr_number control (primary_metric t),
               getattr_number winner_variant (primary_metric t)) of
           (Some control_value, Some winner_value) \<Rightarrow>
             if control_value > 0
             then Some ((winner_value - control_value) / control_value)
             else Some 0
         | _ \<Rightarrow> None))"

definition learn_from_test :: "datetime \<Rightarrow> ABTestManager \<Rightarrow> ABTest \<Rightarrow> ABTestManager" where
  \<comment> \<open>every exception is swallowed by the method: the store is then as it was\<close>
  "learn_from_test now s t =
     (if \<not> statistical_significance t then s
      else
        case find_winner t of
          None \<Rightarrow> s
        | Some winner_variant \<Rightarrow>
            (case performance_improvement_of t winner_variant of
               None \<Rightarrow> s
             | Some improvement \<Rightarrow>
                 let control = control_variant t;
                     content_diff =
                       (if \<not> dict_eq (content winner_variant) (content control)
                        then analyze_content_differences (content control) (content winner_variant)
                        else []);
                     design_diff =
                       (if \<not> dict_eq (design winner_variant) (design control)
                        then analyze_design_differences (design control) (design winner_variant)
                        else [])
                 in (case p_value t of
                       None \<Rightarrow> s
                     | Some p \<Rightarrow>
                         s\<lparr>learned_patterns := learned_patterns s @
                             [\<lparr>update_id = ''learn_'' @ test_id t,
                               source_test_id = test_id t,
                               pattern_type = ''test_result'',
                               learned_insights = content_diff @ design_diff,
                               performance_improvement = improvement,
                               confidence_score = 1 - p,
                               applicable_contexts = [],
                               learning_created_at = now\<rparr>]\<rparr>)))"

definition stop_test ::
    "Libraries \<Rightarrow> datetime \<Rightarrow> ABTestManager \<Rightarrow> string \<Rightarrow> bool \<times> ABTestManager" where
  \<comment> \<open>\<^verbatim>\<open>_stop_test\<close>; its second argument, the reason, is only logged\<close>
  "stop_test L now s tid =
     (case active_tests s tid of
        None \<Rightarrow> (False, s)
      | Some t \<Rightarrow>
          let t1 = t\<lparr>status := COMPLETED, ended_at := Some now\<rparr>;
              t2 = generate_test_insights L t1;
              s1 = learn_from_test now s t2
          in (True, s1\<lparr>completed_tests := (completed_tests s1)(tid \<mapsto> t2),
                       active_tests := (active_tests s1)(tid := None)\<rparr>))"

subsection \<open>Early stopping\<close>

definition total_visitors :: "ABTest \<Rightarrow> int" where
  "total_visitors t =
     foldl (\<lambda>total v. total + visitors v) (visitors (control_variant t)) (test_variants t)"

definition check_early_stopping ::
    "Libraries \<Rightarrow> datetime \<Rightarrow> ABTestManager \<Rightarrow> string \<Rightarrow> ABTestManager" where
  \<comment> \<open>the test is the object the registry holds under \<open>key\<close>; the analysis writes into
      it, and the stop looks it up again under its \<open>test_id\<close>\<close>
  "check_early_stopping L now s key =
     (case active_tests s key of
        None \<Rightarrow> s
      | Some t \<Rightarrow>
          if total_visitors t < minimum_sample_size t then s
          else if (case started_at t of
                     None \<Rightarrow> False
                   | Some started \<Rightarrow> days_between now started < minimum_duration_days t) then s
          else
            (case analyze_statistical_significance L t of
               (significance_result, t') \<Rightarrow>
                 let s' = s\<lparr>active_tests := (active_tests s)(key \<mapsto> t')\<rparr>
                 in if significant significance_result
                    then snd (stop_test L now s' (test_id t'))
                    else s'))"

subsection \<open>Recording an interaction\<close>

text \<open>
  The event: the keys of \<^verbatim>\<open>visitor_data\<close> the recorder reads. \<open>converted\<close> is the truth
  value of \<^verbatim>\<open>visitor_data.get('converted', False)\<close>; each other field is \<open>None\<close> when the key
  is absent, and a key that is present carries a number (a truth value for
  \<^verbatim>\<open>bounce_rate\<close>).
\<close>

record VisitorData =
  converted :: bool
  seen_time_on_page :: "real option"
  seen_bounce_rate :: "bool option"
  seen_scroll_depth :: "real option"
  seen_revenue :: "real option"

definition calculate_engagement_score :: "TestVariant \<Rightarrow> real" where
  "calculate_engagement_score variant =
     (let time_score = min (time_on_page variant / 300) 1;
          bounce_score = 1 - bounce_rate variant;
          scroll_score = scroll_depth variant
      in time_score * 0.4 + bounce_score * 0.3 + scroll_score * 0.3)"

definition update_variant :: "datetime \<Rightarrow> VisitorData \<Rightarrow> TestVariant \<Rightarrow> TestVariant + TestVariant" where
  \<comment> \<open>the updates of the variant the recorder found, in the order of the method. \<open>Inl\<close>:
      a division by a visitor count of zero raised, with the variant as the raise left it;
      \<open>Inr\<close>: the variant after all updates\<close>
  "update_variant now visitor_data variant =
     (let v1 = variant\<lparr>visitors := visitors variant + 1\<rparr> in
      case (if converted visitor_data then
              (let v = v1\<lparr>conversions := conversions v1 + 1\<rparr> in
               if visitors v = 0 then Inl v
               else Inr (v\<lparr>conversion_rate :=
                           real_of_int (conversions v) / real_of_int (visitors v)\<rparr>))
            else Inr v1) of
        Inl v \<Rightarrow> Inl v
      | Inr v2 \<Rightarrow>
          let v3 = (case seen_time_on_page visitor_data of
                      None \<Rightarrow> v2
                    | Some x \<Rightarrow>
                        v2\<lparr>time_on_page :=
                             update_running_average_real (time_on_page v2) x (visitors v2)\<rparr>);
              v4 = (case seen_bounce_rate visitor_data of
                      None \<Rightarrow> v3
                    | Some b \<Rightarrow>
                        v3\<lparr>bounce_rate :=
                             update_running_average_real (bounce_rate v3) (if b then 1 else 0)
                               (visitors v3)\<rparr>);
              v5 = (case seen_scroll_depth visitor_data of
                      None \<Rightarrow> v4
                    | Some x \<Rightarrow>
                        v4\<lparr>scroll_depth :=
                             update_running_average_real (scroll_depth v4) x (visitors v4)\<rparr>);
              v6 = v5\<lparr>engagement_score := calculate_engagement_score v5\<rparr>
          in (case seen_revenue visitor_data of
                None \<Rightarrow> Inr (v6\<lparr>last_updated := Some now\<rparr>)
              | Some r \<Rightarrow>
                  let v7 = v6\<lparr>revenue := revenue v6 + r\<rparr> in
                  if visitors v7 = 0 then Inl v7
                  else Inr (v7\<lparr>revenue_per_visitor := revenue v7 / real_of_int (visitors v7),
                               last_updated := Some now\<rparr>)))"

datatype VariantRef = Control | Treatment nat

fun first_index :: "('a \<Rightarrow> bool) \<Rightarrow> 'a list \<Rightarrow> nat option" where
  "first_index P [] = None"
| "first_index P (x # xs) = (if P x then Some 0 else map_option Suc (first_index P xs))"

definition find_variant :: "ABTest \<Rightarrow> string \<Rightarrow> VariantRef option" where
  "find_variant t vid =
     (if variant_id (control_variant t) = vid then Some Control
      else map_option Treatment (first_index (\<lambda>v. variant_id v = vid) (test_variants t)))"

fun get_variant :: "ABTest \<Rightarrow> VariantRef \<Rightarrow> TestVariant" where
  "get_variant t Control = control_variant t"
| "get_variant t (Treatment i) = test_variants t ! i"

fun set_variant :: "ABTest \<Rightarrow> VariantRef \<Rightarrow> TestVariant \<Rightarrow> ABTest" where
  "set_variant t Control v = t\<lparr>control_variant := v\<rparr>"
| "set_variant t (Treatment i) v = t\<lparr>test_variants := (test_variants t)[i := v]\<rparr>"

definition record_visitor_interaction ::
    "Libraries \<Rightarrow> datetime \<Rightarrow> ABTestManager \<Rightarrow> string \<Rightarrow> string \<Rightarrow> VisitorData \<Rightarrow>
     bool \<times> ABTestManager" where
  "record_visitor_interaction L now s tid vid visitor_data =
     (case active_tests s tid of
        None \<Rightarrow> (False, s)
      | Some t \<Rightarrow>
          if status t \<noteq> RUNNING then (False, s)
          else
            (case find_variant t vid of
               None \<Rightarrow> (False, s)
             | Some r \<Rightarrow>
                 (case update_variant now visitor_data (get_variant t r) of
                    Inl v \<Rightarrow>
                      (False, s\<lparr>active_tests := (active_tests s)(tid \<mapsto> set_variant t r v)\<rparr>)
                  | Inr v \<Rightarrow>
                      (True,
                       check_early_stopping L now
                         (s\<lparr>active_tests := (active_tests s)(tid \<mapsto> set_variant t r v)\<rparr>)
                         tid))))"

subsection \<open>Status\<close>




subsection \<open>The registry invariant\<close>


definition started_when_running :: "ABTestManager \<Rightarrow> bool" where
  \<comment> \<open>every running test of the active registry has its start recorded\<close>
  "started_when_running s =
     (\<forall>tid t. active_tests s tid = Some t \<longrightarrow> status t = RUNNING \<longrightarrow> started_at t \<noteq> None)"

subsection \<open>Concrete inputs\<close>

text \<open>
  A variant as the dataclass constructs it from its six required fields, and a variant
  with a recorded history.
\<close>

definition new_variant :: "string \<Rightarrow> string \<Rightarrow> real \<Rightarrow> TestVariant" where
  "new_variant vid nm share =
     \<lparr>variant_id = vid, name = nm, description = [], traffic_allocation = share,
      content = [], design = [], visitors = 0, conversions = 0, conversion_rate = 0,
      bounce_rate = 0, time_on_page = 0, scroll_depth = 0, engagement_score = 0,
      revenue = 0, revenue_per_visitor = 0, created_at = None, last_updated = None\<rparr>"

definition measured_variant :: "string \<Rightarrow> string \<Rightarrow> int \<Rightarrow> int \<Rightarrow> real \<Rightarrow> TestVariant" where
  "measured_variant vid nm n k rate =
     (new_variant vid nm 0.5)\<lparr>visitors := n, conversions := k, conversion_rate := rate\<rparr>"

text \<open>
  Libraries for the concrete runs below. The power analysis raises (the keyword
  \<^verbatim>\<open>power\<close> is none of statsmodels' \<^verbatim>\<open>ttest_power\<close>), so the planner takes its fallback.
  The clock reading 0 stands for the date \<^verbatim>\<open>2025-01-01 00:00:00\<close>. The digest is given for
  the three tests created below: \<^verbatim>\<open>32d2c488\<close> begins the MD5 digest of
  \<^verbatim>\<open>'Homepage CTA Test_2025-01-01 00:00:00'\<close>, and \<^verbatim>\<open>74c96cc2\<close> begins the digests of both
  \<^verbatim>\<open>'Landing Page Test 5816_2025-01-01 00:00:00'\<close> and
  \<^verbatim>\<open>'Landing Page Test 27577_2025-01-10 00:00:00'\<close>. The chi-square test is given at the two tables analysed below,
  with the statistic (Yates-corrected) and the p-value rounded. The t-test and the formats
  are not evaluated below.
\<close>

definition demo_libraries :: Libraries where
  "demo_libraries =
     \<lparr>ttest_power = (\<lambda>effect pwr alpha. None),
      md5_prefix =
        (\<lambda>nm now.
           if nm = ''Homepage CTA Test'' \<and> now = 0 then Some ''32d2c488''
           else if nm = ''Landing Page Test 5816'' \<and> now = 0 then Some ''74c96cc2''
           else if nm = ''Landing Page Test 27577'' \<and> now = 9 * day then Some ''74c96cc2''
           else None),
      chi2_contingency =
        (\<lambda>a b c d.
           if (a, b, c, d) = (320, 2880, 375, 2825) then Some (4.7068, 0.03)
           else if (a, b, c, d) = (0, 3200, 160, 3040) then Some (162.06, 4 / 10 ^ 37)
           else None),
      normal_ttest_ind = (\<lambda>m1 s1 n1 m2 s2 n2. None),
      format_1f = (\<lambda>x. []),
      format_4f = (\<lambda>x. [])\<rparr>"

definition demo_id :: string where
  "demo_id = ''test_32d2c488''"

definition demo_test :: ABTest where
  \<comment> \<open>the test \<^verbatim>\<open>create_ab_test\<close> stores for the two variants of the module's usage
      example\<close>
  "demo_test =
     \<lparr>test_id = demo_id,
      test_name = ''Homepage CTA Test'',
      test_description = ''Testing new CTA button design'',
      test_type = AB_TEST,
      status = PLANNING,
      primary_metric = ''conversion_rate'',
      secondary_metrics = [''bounce_rate'', ''time_on_page'', ''engagement_score''],
      significance_level = MEDIUM,
      minimum_sample_size = 6400,
      minimum_duration_days = 7,
      maximum_duration_days = 30,
      control_variant = new_variant ''control'' ''Original'' 0.5,
      test_variants = [new_variant ''test_v1'' ''New Design'' 0.5],
      winner_variant_id = None,
      statistical_significance = False,
      confidence_interval = None,
      p_value = None,
      effect_size = None,
      created_by = None,
      test_created_at = Some 0,
      started_at = None,
      ended_at = None,
      insights = Some [],
      recommendations = Some []\<rparr>"

definition demo_planning :: ABTestManager where
  "demo_planning = init_manager\<lparr>active_tests := [demo_id \<mapsto> demo_test]\<rparr>"

definition demo_running_test :: ABTest where
  "demo_running_test = demo_test\<lparr>status := RUNNING, started_at := Some 0\<rparr>"

definition demo_running :: ABTestManager where
  "demo_running = init_manager\<lparr>active_tests := [demo_id \<mapsto> demo_running_test]\<rparr>"

definition no_conversion :: VisitorData where
  "no_conversion =
     \<lparr>converted = False, seen_time_on_page = None, seen_bounce_rate = None,
      seen_scroll_depth = None, seen_revenue = None\<rparr>"

definition conversion :: VisitorData where
  "conversion = no_conversion\<lparr>converted := True\<rparr>"

definition high_level_running :: ABTestManager where
  \<comment> \<open>the demo test created at the level \<^verbatim>\<open>HIGH\<close> (for which the planner's fallback
      gives the same 6400), after 3200 visitors of the control variant with 320
      conversions and 3199 visitors of the treatment variant with 374 conversions\<close>
  "high_level_running =
     init_manager
       \<lparr>active_tests :=
          [demo_id \<mapsto>
           demo_running_test
             \<lparr>significance_level := HIGH,
              control_variant := measured_variant ''control'' ''Original'' 3200 320 0.1,
              test_variants :=
                [measured_variant ''test_v1'' ''New Design'' 3199 374 (374 / 3199)]\<rparr>]\<rparr>"

definition zero_control_running :: ABTestManager where
  \<comment> \<open>the demo test after 3200 visitors of the control variant, none of whom converted,
      and 3199 visitors of the treatment variant with 160 conversions\<close>
  "zero_control_running =
     init_manager
       \<lparr>active_tests :=
          [demo_id \<mapsto>
           demo_running_test
             \<lparr>control_variant := measured_variant ''control'' ''Original'' 3200 0 0,
              test_variants :=
                [measured_variant ''test_v1'' ''New Design'' 3199 160 (160 / 3199)]\<rparr>]\<rparr>"



section \<open>Properties\<close>

subsection \<open>Running mean\<close>

lemmas double_eval =
  round_double_def binary_exponent_def round_half_even_def bitlen_def compute_floorlog Let_def
  float_of_int_def py_float_def update_running_average_def fsub_def signed_infinity_def









text \<open>
  Rounding alone also separates the fold from the mean: for the values 68.5, 35.8, 284.5
  and 42.7 the fold ends with 107.87499999999999, not with 107.875.
\<close>

lemma running_average_rounds:
  "fold_running_average (Finite 0) 1
     [py_float 68.5, py_float 35.8, py_float 284.5, py_float 42.7] =
     Inr (py_float 107.87499999999999) \<and>
   py_float 107.87499999999999 \<noteq> py_float 107.875"
  by (simp add: double_eval)

subsection \<open>Auxiliary facts\<close>

lemmas demo_defs =
  demo_libraries_def demo_id_def demo_test_def demo_planning_def demo_running_test_def
  demo_running_def no_conversion_def conversion_def new_variant_def measured_variant_def
  init_manager_def

lemma generate_test_insights_fields [simp]:
  "status (generate_test_insights L t) = status t"
  "test_id (generate_test_insights L t) = test_id t"
  "winner_variant_id (generate_test_insights L t) = winner_variant_id t"
  "statistical_significance (generate_test_insights L t) = statistical_significance t"
  "p_value (generate_test_insights L t) = p_value t"
  "control_variant (generate_test_insights L t) = control_variant t"
  "test_variants (generate_test_insights L t) = test_variants t"
  "primary_metric (generate_test_insights L t) = primary_metric t"
  "started_at (generate_test_insights L t) = started_at t"
  by (simp_all add: generate_test_insights_def Let_def split: option.splits)

lemma find_winner_generate [simp]:
  "find_winner (generate_test_insights L t) = find_winner t"
  by (simp add: find_winner_def split: option.splits)

lemma performance_improvement_generate [simp]:
  "performance_improvement_of (generate_test_insights L t) w = performance_improvement_of t w"
  by (simp add: performance_improvement_of_def Let_def)

lemma learn_from_test_registries [simp]:
  "active_tests (learn_from_test now s t) = active_tests s"
  "completed_tests (learn_from_test now s t) = completed_tests s"
  by (simp_all add: learn_from_test_def Let_def split: option.splits)

lemma analyze_fields [simp]:
  "test_id (snd (analyze_statistical_significance L t)) = test_id t"
  "status (snd (analyze_statistical_significance L t)) = status t"
  "started_at (snd (analyze_statistical_significance L t)) = started_at t"
  "control_variant (snd (analyze_statistical_significance L t)) = control_variant t"
  "test_variants (snd (analyze_statistical_significance L t)) = test_variants t"
  "primary_metric (snd (analyze_statistical_significance L t)) = primary_metric t"
  "minimum_sample_size (snd (analyze_statistical_significance L t)) = minimum_sample_size t"
  by (simp_all add: analyze_statistical_significance_def Let_def split: list.splits option.splits)

lemma failed_result_not_significant [simp]: "\<not> significant failed_result"
  by (simp add: failed_result_def)

lemma t_test_significant_numeric:
  "significant (t_test L c tv m) \<Longrightarrow>
   \<exists>a b. getattr_number c m = Some a \<and> getattr_number tv m = Some b"
  by (cases "getattr_number c m"; cases "getattr_number tv m"; simp add: t_test_def)

lemma getattr_conversion_rate [simp]:
  "getattr_number v ''conversion_rate'' = Some (conversion_rate v)"
  by (simp add: getattr_number_def)

lemma stat_test_threshold:
  "significant (chi_square_test L c tv) = (result_p_value (chi_square_test L c tv) < significance_threshold)"
  "significant (t_test L c tv m) = (result_p_value (t_test L c tv m) < significance_threshold)"
  by (simp_all add: chi_square_test_def t_test_def failed_result_def significance_threshold_def Let_def
        split: option.splits prod.splits)

lemma analyze_single:
  assumes one: "test_variants t = [tv]"
  shows "fst (analyze_statistical_significance L t) = stat_test L t tv"
    and "snd (analyze_statistical_significance L t) =
         t\<lparr>p_value := Some (result_p_value (stat_test L t tv)),
           statistical_significance := significant (stat_test L t tv),
           confidence_interval := result_confidence_interval (stat_test L t tv),
           effect_size := Some (case result_effect_size (stat_test L t tv) of None \<Rightarrow> 0 | Some x \<Rightarrow> x),
           winner_variant_id :=
             (if significant (stat_test L t tv)
              then Some (if the (getattr_number tv (primary_metric t)) >
                            the (getattr_number (control_variant t) (primary_metric t))
                         then variant_id tv else variant_id (control_variant t))
              else winner_variant_id t)\<rparr>"
proof -
  show "fst (analyze_statistical_significance L t) = stat_test L t tv"
  proof (cases "primary_metric t = ''conversion_rate''")
    case True
    then show ?thesis
      by (simp add: analyze_statistical_significance_def stat_test_def one Let_def)
  next
    case False
    show ?thesis
    proof (cases "significant (t_test L (control_variant t) tv (primary_metric t))")
      case True
      from t_test_significant_numeric [OF this] obtain a b where
        "getattr_number (control_variant t) (primary_metric t) = Some a"
        "getattr_number tv (primary_metric t) = Some b" by blast
      with True False show ?thesis
        by (simp add: analyze_statistical_significance_def stat_test_def one Let_def)
    next
      case no: False
      with False show ?thesis
        by (simp add: analyze_statistical_significance_def stat_test_def one Let_def)
    qed
  qed
  show "snd (analyze_statistical_significance L t) =
         t\<lparr>p_value := Some (result_p_value (stat_test L t tv)),
           statistical_significance := significant (stat_test L t tv),
           confidence_interval := result_confidence_interval (stat_test L t tv),
           effect_size := Some (case result_effect_size (stat_test L t tv) of None \<Rightarrow> 0 | Some x \<Rightarrow> x),
           winner_variant_id :=
             (if significant (stat_test L t tv)
              then Some (if the (getattr_number tv (primary_metric t)) >
                            the (getattr_number (control_variant t) (primary_metric t))
                         then variant_id tv else variant_id (control_variant t))
              else winner_variant_id t)\<rparr>"
  proof (cases "primary_metric t = ''conversion_rate''")
    case True
    then show ?thesis
      by (simp add: analyze_statistical_significance_def stat_test_def one Let_def)
  next
    case False
    show ?thesis
    proof (cases "significant (t_test L (control_variant t) tv (primary_metric t))")
      case True
      from t_test_significant_numeric [OF this] obtain a b where
        "getattr_number (control_variant t) (primary_metric t) = Some a"
        "getattr_number tv (primary_metric t) = Some b" by blast
      with True False show ?thesis
        by (simp add: analyze_statistical_significance_def stat_test_def one Let_def)
    next
      case no: False
      with False show ?thesis
        by (simp add: analyze_statistical_significance_def stat_test_def one Let_def)
    qed
  qed
qed

lemma analyze_other:
  "length (test_variants t) \<noteq> 1 \<Longrightarrow> analyze_statistical_significance L t = (failed_result, t)"
  by (cases "test_variants t" rule: list.exhaust;
      simp add: analyze_statistical_significance_def split: list.splits)

lemma analyze_winner_kept:
  "\<not> significant (fst (analyze_statistical_significance L t)) \<Longrightarrow>
   winner_variant_id (snd (analyze_statistical_significance L t)) = winner_variant_id t"
proof (cases "length (test_variants t) = 1")
  case True
  then obtain tv where "test_variants t = [tv]"
    by (cases "test_variants t") auto
  then show "\<not> significant (fst (analyze_statistical_significance L t)) \<Longrightarrow> ?thesis"
    by (simp add: analyze_single)
next
  case False
  then show ?thesis by (simp add: analyze_other)
qed

lemma analyze_winner_set:
  "significant (fst (analyze_statistical_significance L t)) \<Longrightarrow>
   winner_variant_id (snd (analyze_statistical_significance L t)) \<noteq> None"
proof (cases "length (test_variants t) = 1")
  case True
  then obtain tv where "test_variants t = [tv]"
    by (cases "test_variants t") auto
  then show "significant (fst (analyze_statistical_significance L t)) \<Longrightarrow> ?thesis"
    by (simp add: analyze_single)
next
  case False
  assume "significant (fst (analyze_statistical_significance L t))"
  with False show ?thesis by (simp add: analyze_other)
qed

lemma stop_test_active:
  "active_tests s tid = Some t \<Longrightarrow>
   stop_test L now s tid =
     (True, (learn_from_test now s (generate_test_insights L (t\<lparr>status := COMPLETED, ended_at := Some now\<rparr>)))
        \<lparr>completed_tests := (completed_tests s)(tid \<mapsto> generate_test_insights L (t\<lparr>status := COMPLETED, ended_at := Some now\<rparr>)),
         active_tests := (active_tests s)(tid := None)\<rparr>)"
  by (simp add: stop_test_def Let_def)

lemma stop_test_inactive:
  "active_tests s tid = None \<Longrightarrow> stop_test L now s tid = (False, s)"
  by (simp add: stop_test_def)

subsection \<open>Recording an interaction\<close>

text \<open>
  Claim C1, at a failing input. The claim: after every successful call the variant has
  \<open>conversion_rate = conversions / visitors\<close>, also when the event did not convert. The
  recorder assigns the rate only inside the branch of a converting event. On the running
  demo test, a converting visitor of the control variant followed by a visitor who does
  not convert: both calls succeed, and the variant then has 2 visitors, 1 conversion and
  the conversion rate 1 of the first call, not 1/2.
\<close>

theorem conversion_rate_goes_stale:
  "map_option control_variant
     (active_tests
        (snd (record_visitor_interaction L now
           (snd (record_visitor_interaction L now demo_running demo_id ''control'' conversion))
           demo_id ''control'' no_conversion))
        demo_id) =
   Some ((new_variant ''control'' ''Original'' 0.5)
           \<lparr>visitors := 2, conversions := 1, conversion_rate := 1,
            engagement_score := 0.3, last_updated := Some now\<rparr>)"
  by (simp add: record_visitor_interaction_def find_variant_def update_variant_def
       check_early_stopping_def total_visitors_def calculate_engagement_score_def demo_defs Let_def)

text \<open>
  Claim C5, as the code has it. The recorder returns the truth value \<^verbatim>\<open>False\<close> and
  leaves the manager as it was when the test id is not in the active registry, when the
  test is not running, and when the variant id names no variant of the test. It has no
  other failure value: the three cases cannot be told apart from the result.
\<close>

theorem record_failures_are_bare_false:
  "active_tests s tid = None \<or>
   (\<exists>t. active_tests s tid = Some t \<and> (status t \<noteq> RUNNING \<or> find_variant t vid = None)) \<Longrightarrow>
   record_visitor_interaction L now s tid vid visitor_data = (False, s)"
  by (auto simp: record_visitor_interaction_def)

theorem record_failures_are_bare_false_witness:
  "(active_tests demo_planning demo_id = None \<or>
    (\<exists>t. active_tests demo_planning demo_id = Some t \<and>
       (status t \<noteq> RUNNING \<or> find_variant t ''control'' = None))) \<and>
   record_visitor_interaction demo_libraries 0 demo_planning demo_id ''control'' conversion =
     (False, demo_planning)"
proof -
  have h: "active_tests demo_planning demo_id = None \<or>
    (\<exists>t. active_tests demo_planning demo_id = Some t \<and>
       (status t \<noteq> RUNNING \<or> find_variant t ''control'' = None))"
    by (simp add: demo_planning_def demo_test_def)
  from h record_failures_are_bare_false [OF h] show ?thesis by blast
qed

text \<open>
  The claim as stated fails: an unknown test id, a test that is still planned and an
  unknown variant id all give the same bare \<^verbatim>\<open>False\<close>.
\<close>

theorem record_failures_undifferentiated:
  "record_visitor_interaction demo_libraries 0 demo_planning ''test_unknown'' ''control'' conversion =
     (False, demo_planning) \<and>
   record_visitor_interaction demo_libraries 0 demo_planning demo_id ''control'' conversion =
     (False, demo_planning) \<and>
   record_visitor_interaction demo_libraries 0 demo_running demo_id ''nobody'' conversion =
     (False, demo_running)"
  by (simp add: record_visitor_interaction_def find_variant_def demo_defs)

subsection \<open>Significance analysis\<close>

text \<open>
  Claim C10. A test whose number of treatment variants is not exactly one is not
  analysed: the analysis returns \<^verbatim>\<open>{'significant': False, 'p_value': 1.0}\<close> and leaves
  the test, its statistical fields included, as it was. Nothing is raised.
\<close>

theorem analyzer_declines_other_arities:
  "length (test_variants t) \<noteq> 1 \<Longrightarrow>
   analyze_statistical_significance L t =
     (\<lparr>significant = False, result_p_value = 1, result_effect_size = None,
       result_confidence_interval = None, test_statistic = None\<rparr>, t)"
  by (cases "test_variants t" rule: list.exhaust;
      simp add: analyze_statistical_significance_def failed_result_def split: list.splits)

theorem analyzer_declines_other_arities_witness:
  "length (test_variants (demo_running_test\<lparr>test_variants := []\<rparr>)) \<noteq> 1 \<and>
   analyze_statistical_significance demo_libraries (demo_running_test\<lparr>test_variants := []\<rparr>) =
     (\<lparr>significant = False, result_p_value = 1, result_effect_size = None,
       result_confidence_interval = None, test_statistic = None\<rparr>,
      demo_running_test\<lparr>test_variants := []\<rparr>)"
  using analyzer_declines_other_arities
    [of "demo_running_test\<lparr>test_variants := []\<rparr>" demo_libraries]
  by simp

subsection \<open>Early stopping\<close>

text \<open>
  Claim C6. On a started test, while the visitors of all arms together are fewer than
  \<open>minimum_sample_size\<close>, or fewer than \<open>minimum_duration_days\<close> days have passed since the
  start, the early-stopping check returns the manager unchanged, whatever the libraries
  would report: the test is not stopped, and the analysis, which would write its result
  into the test, is not run.
\<close>

theorem no_early_stop_before_preconditions:
  assumes "active_tests s key = Some t" and "started_at t = Some started"
    and "total_visitors t < minimum_sample_size t \<or>
         days_between now started < minimum_duration_days t"
  shows "check_early_stopping L now s key = s"
  using assms by (auto simp: check_early_stopping_def)

theorem no_early_stop_before_preconditions_witness:
  "active_tests demo_running demo_id = Some demo_running_test \<and>
   started_at demo_running_test = Some 0 \<and>
   (total_visitors demo_running_test < minimum_sample_size demo_running_test \<or>
    days_between (8 * day) 0 < minimum_duration_days demo_running_test) \<and>
   check_early_stopping demo_libraries (8 * day) demo_running demo_id = demo_running"
proof -
  have a: "active_tests demo_running demo_id = Some demo_running_test"
    by (simp add: demo_running_def)
  have b: "started_at demo_running_test = Some 0"
    by (simp add: demo_running_test_def)
  have c: "total_visitors demo_running_test < minimum_sample_size demo_running_test \<or>
    days_between (8 * day) 0 < minimum_duration_days demo_running_test"
    by (simp add: total_visitors_def demo_running_test_def demo_test_def new_variant_def)
  from a b c no_early_stop_before_preconditions [OF a b c] show ?thesis by blast
qed

lemma demo_running_facts:
  "active_tests demo_running demo_id = Some demo_running_test"
  "test_id demo_running_test = demo_id"
  "status demo_running_test = RUNNING"
  "started_at demo_running_test = Some 0"
  by (simp_all add: demo_running_def demo_running_test_def demo_test_def)

text \<open>
  Claim C2, as the code has it. The early-stopping check never reads
  \<open>maximum_duration_days\<close>. On a running, started test it stops the test (status
  completed, moved to the completed registry, with the winner the analysis has set) exactly
  when the visitors of all arms reach \<open>minimum_sample_size\<close>, at least
  \<open>minimum_duration_days\<close> days have passed and the analysis reports significance. In
  every other case, however many days have passed, the test stays running in the active
  registry with the winner it had.
\<close>

theorem early_stopping_outcome:
  assumes act: "active_tests s key = Some t" and tid: "test_id t = key"
    and run: "status t = RUNNING" and st: "started_at t = Some started"
  shows "if minimum_sample_size t \<le> total_visitors t \<and>
            minimum_duration_days t \<le> days_between now started \<and>
            significant (fst (analyze_statistical_significance L t))
         then active_tests (check_early_stopping L now s key) key = None \<and>
              map_option status (completed_tests (check_early_stopping L now s key) key) =
                Some COMPLETED \<and>
              map_option winner_variant_id (completed_tests (check_early_stopping L now s key) key) =
                Some (winner_variant_id (snd (analyze_statistical_significance L t))) \<and>
              winner_variant_id (snd (analyze_statistical_significance L t)) \<noteq> None
         else map_option status (active_tests (check_early_stopping L now s key) key) =
                Some RUNNING \<and>
              map_option winner_variant_id (active_tests (check_early_stopping L now s key) key) =
                Some (winner_variant_id t) \<and>
              completed_tests (check_early_stopping L now s key) = completed_tests s"
proof (cases "minimum_sample_size t \<le> total_visitors t \<and>
            minimum_duration_days t \<le> days_between now started")
  case False
  then have "check_early_stopping L now s key = s"
    using act st by (auto simp: check_early_stopping_def)
  with False act run show ?thesis by auto
next
  case pre: True
  obtain res t' where an: "analyze_statistical_significance L t = (res, t')"
    by (cases "analyze_statistical_significance L t")
  have t': "t' = snd (analyze_statistical_significance L t)"
    and res: "res = fst (analyze_statistical_significance L t)"
    using an by simp_all
  have id': "test_id t' = key" and run': "status t' = RUNNING"
    using tid run by (simp_all add: t')
  show ?thesis
  proof (cases "significant res")
    case True
    have step: "check_early_stopping L now s key =
        snd (stop_test L now (s\<lparr>active_tests := (active_tests s)(key \<mapsto> t')\<rparr>) key)"
      using pre act st an True id' by (simp add: check_early_stopping_def)
    have "winner_variant_id t' \<noteq> None"
      using True analyze_winner_set [of L t] by (simp add: t' res)
    with True pre show ?thesis
      by (simp add: step stop_test_def Let_def flip: res t')
  next
    case False
    have step: "check_early_stopping L now s key =
        s\<lparr>active_tests := (active_tests s)(key \<mapsto> t')\<rparr>"
      using pre act st an False by (simp add: check_early_stopping_def)
    have "winner_variant_id t' = winner_variant_id t"
      using False analyze_winner_kept [of L t] by (simp add: t' res)
    with False pre run' show ?thesis
      by (simp add: step flip: res)
  qed
qed

theorem early_stopping_outcome_witness:
  "active_tests demo_running demo_id = Some demo_running_test \<and>
   test_id demo_running_test = demo_id \<and> status demo_running_test = RUNNING \<and>
   started_at demo_running_test = Some 0 \<and>
   map_option status (active_tests (check_early_stopping demo_libraries (31 * day) demo_running demo_id) demo_id) =
     Some RUNNING"
proof -
  have small: "\<not> minimum_sample_size demo_running_test \<le> total_visitors demo_running_test"
    by (simp add: total_visitors_def demo_running_test_def demo_test_def new_variant_def)
  from early_stopping_outcome [OF demo_running_facts, of "31 * day" demo_libraries] small
  show ?thesis by (simp add: demo_running_facts)
qed

text \<open>
  The claim as stated fails: an interaction recorded 31 days after the start of the demo
  test, whose \<open>maximum_duration_days\<close> is 30, succeeds and runs the check, and the test is
  still running and in no completed registry.
\<close>

theorem no_forced_stop_at_maximum_duration:
  "fst (record_visitor_interaction demo_libraries (31 * day) demo_running demo_id ''control'' no_conversion) \<and>
   map_option status
     (active_tests (snd (record_visitor_interaction demo_libraries (31 * day) demo_running demo_id
        ''control'' no_conversion)) demo_id) = Some RUNNING \<and>
   map_option maximum_duration_days
     (active_tests (snd (record_visitor_interaction demo_libraries (31 * day) demo_running demo_id
        ''control'' no_conversion)) demo_id) = Some 30 \<and>
   completed_tests (snd (record_visitor_interaction demo_libraries (31 * day) demo_running demo_id
        ''control'' no_conversion)) demo_id = None \<and>
   days_between (31 * day) 0 = 31"
  by (simp add: record_visitor_interaction_def find_variant_def update_variant_def
       check_early_stopping_def total_visitors_def calculate_engagement_score_def demo_defs Let_def
       days_between_def day_def)

subsection \<open>The significance decision\<close>

text \<open>
  The decision of the analysis on a test with exactly one treatment variant: it reports
  significance exactly when the p-value it reports is below the manager's
  \<open>significance_threshold\<close>, and writes the result into the test. When the result is
  significant, the winner becomes the treatment variant if its value of the primary metric
  is greater than the control's, and the control variant otherwise; when it is not, the
  winner stays as it was.
\<close>

lemma analysis_decision:
  assumes one: "test_variants t = [tv]"
  shows "significant (fst (analyze_statistical_significance L t)) =
           (result_p_value (fst (analyze_statistical_significance L t)) < significance_threshold) \<and>
         statistical_significance (snd (analyze_statistical_significance L t)) =
           significant (fst (analyze_statistical_significance L t)) \<and>
         p_value (snd (analyze_statistical_significance L t)) =
           Some (result_p_value (fst (analyze_statistical_significance L t))) \<and>
         (if significant (fst (analyze_statistical_significance L t))
          then \<exists>c x. getattr_number (control_variant t) (primary_metric t) = Some c \<and>
                 getattr_number tv (primary_metric t) = Some x \<and>
                 winner_variant_id (snd (analyze_statistical_significance L t)) =
                   Some (if x > c then variant_id tv else variant_id (control_variant t))
          else winner_variant_id (snd (analyze_statistical_significance L t)) =
                 winner_variant_id t)"
proof -
  note single = analyze_single [OF one, of L]
  have threshold: "significant (stat_test L t tv) =
      (result_p_value (stat_test L t tv) < significance_threshold)"
    by (simp add: stat_test_def stat_test_threshold)
  have numeric: "\<exists>c x. getattr_number (control_variant t) (primary_metric t) = Some c \<and>
      getattr_number tv (primary_metric t) = Some x"
    if "significant (stat_test L t tv)"
  proof (cases "primary_metric t = ''conversion_rate''")
    case True
    then show ?thesis by simp
  next
    case False
    with that show ?thesis
      using t_test_significant_numeric [of L "control_variant t" tv "primary_metric t"]
      by (simp add: stat_test_def)
  qed
  show ?thesis
  proof (cases "significant (stat_test L t tv)")
    case True
    from numeric [OF True] obtain c x where
      "getattr_number (control_variant t) (primary_metric t) = Some c"
      "getattr_number tv (primary_metric t) = Some x" by blast
    with True threshold show ?thesis by (simp add: single)
  next
    case False
    with threshold show ?thesis by (simp add: single)
  qed
qed

text \<open>
  Claim C3, at a failing input. The claim: the result is significant exactly when the
  p-value is below the significance level the test was configured with. The demo test
  created at the level \<^verbatim>\<open>HIGH\<close>, which is 0.01, has run for eight days; its control
  variant has 3200 visitors and 320 conversions, its treatment variant 3199 visitors and
  374 conversions. The converting visitor that brings the total to the minimum sample size
  is recorded, the analysis runs on the table \<^verbatim>\<open>[[320, 2880], [375, 2825]]\<close> and reports
  the p-value 0.03, which is not below 0.01. The test is nevertheless declared significant,
  the treatment variant is made the winner, and the test is stopped and completed: the
  decision compares the p-value with the manager's 0.05, not with the level of the test.
\<close>

theorem significant_above_configured_level:
  "fst (record_visitor_interaction demo_libraries (8 * day) high_level_running demo_id
          ''test_v1'' conversion) \<and>
   active_tests (snd (record_visitor_interaction demo_libraries (8 * day) high_level_running
          demo_id ''test_v1'' conversion)) demo_id = None \<and>
   map_option status (completed_tests (snd (record_visitor_interaction demo_libraries (8 * day)
          high_level_running demo_id ''test_v1'' conversion)) demo_id) = Some COMPLETED \<and>
   map_option significance_level (completed_tests (snd (record_visitor_interaction
          demo_libraries (8 * day) high_level_running demo_id ''test_v1'' conversion)) demo_id) =
     Some HIGH \<and>
   level_value HIGH = 0.01 \<and>
   map_option p_value (completed_tests (snd (record_visitor_interaction
          demo_libraries (8 * day) high_level_running demo_id ''test_v1'' conversion)) demo_id) =
     Some (Some 0.03) \<and>
   \<not> (0.03 :: real) < level_value HIGH \<and>
   map_option statistical_significance (completed_tests (snd (record_visitor_interaction
          demo_libraries (8 * day) high_level_running demo_id ''test_v1'' conversion)) demo_id) =
     Some True \<and>
   map_option winner_variant_id (completed_tests (snd (record_visitor_interaction
          demo_libraries (8 * day) high_level_running demo_id ''test_v1'' conversion)) demo_id) =
     Some (Some ''test_v1'')"
  by (simp add: record_visitor_interaction_def find_variant_def update_variant_def
       check_early_stopping_def total_visitors_def calculate_engagement_score_def
       analyze_statistical_significance_def stat_test_def chi_square_test_def
       stop_test_def learn_from_test_def find_winner_def performance_improvement_of_def
       generate_test_insights_def variant_insights_def
       significance_threshold_def days_between_def day_def
       high_level_running_def demo_defs Let_def)

subsection \<open>Creating a test\<close>

lemma calculate_sample_size_floor:
  "\<exists>n. calculate_sample_size L alpha pwr minimum_detectable_effect 0.1 = Inr n \<and> 1000 \<le> n"
  by (cases "ttest_power L minimum_detectable_effect pwr alpha")
     (simp_all add: calculate_sample_size_def minimum_detectable_effect_def Let_def)

lemma create_ab_test_result:
  assumes digest: "md5_prefix L nm now = Some digest"
  shows "\<exists>t. create_ab_test L now s nm descr control tests metric level =
          Inr (''test_'' @ digest,
               s\<lparr>active_tests := (active_tests s)(''test_'' @ digest \<mapsto> t)\<rparr>) \<and>
        test_id t = ''test_'' @ digest \<and>
        status t = PLANNING \<and> control_variant t = control \<and> test_variants t = tests \<and>
        1000 \<le> minimum_sample_size t \<and> minimum_duration_days t = 7 \<and>
        maximum_duration_days t = 30"
proof -
  obtain n where n: "calculate_sample_size L (level_value level) 0.8 minimum_detectable_effect 0.1 = Inr n"
    and big: "1000 \<le> n"
    using calculate_sample_size_floor by blast
  let ?t = "\<lparr>test_id = ''test_'' @ digest, test_name = nm, test_description = descr,
      test_type = AB_TEST, status = PLANNING, primary_metric = metric,
      secondary_metrics = [''bounce_rate'', ''time_on_page'', ''engagement_score''],
      significance_level = level, minimum_sample_size = n, minimum_duration_days = 7,
      maximum_duration_days = 30, control_variant = control, test_variants = tests,
      winner_variant_id = None, statistical_significance = False, confidence_interval = None,
      p_value = None, effect_size = None, created_by = None, test_created_at = Some now,
      started_at = None, ended_at = None, insights = Some [], recommendations = Some []\<rparr>"
  have "create_ab_test L now s nm descr control tests metric level =
          Inr (''test_'' @ digest,
               s\<lparr>active_tests := (active_tests s)(''test_'' @ digest \<mapsto> ?t)\<rparr>)"
    using n digest by (simp add: create_ab_test_def Let_def)
  moreover have "test_id ?t = ''test_'' @ digest \<and>
        status ?t = PLANNING \<and> control_variant ?t = control \<and> test_variants ?t = tests \<and>
        1000 \<le> minimum_sample_size ?t \<and> minimum_duration_days ?t = 7 \<and>
        maximum_duration_days ?t = 30"
    using big by simp
  ultimately show ?thesis by blast
qed

lemma create_ab_test_unencodable:
  "md5_prefix L nm now = None \<Longrightarrow>
   create_ab_test L now s nm descr control tests metric level = Inl UnicodeEncodeError"
  by (simp add: create_ab_test_def)

text \<open>
  Claim C4, as the code has it. \<^verbatim>\<open>create_ab_test\<close> validates nothing. When the name can be
  encoded, it stores the test in the active registry with status planning, whatever the
  configuration, and returns the id \<^verbatim>\<open>test_\<close> followed by the digest; the planner gives a
  minimum sample size of at least 1000 and the minimum duration is 7 days. When the name
  cannot be encoded, the error of the encoding leaves the method and nothing is stored.
  The three constraints are checked by \<^verbatim>\<open>start_test\<close>: it sets the test running, recording
  the start, exactly when the id is in the active registry, the test is planned, the float
  sum of the allocations of the control and the treatment variants does not differ from 1.0
  by more than the float 0.01, the minimum sample size is at least 100 and the minimum
  duration at least 1 day; in every other case it returns \<^verbatim>\<open>False\<close> and leaves the manager
  as it was. The sum is accumulated in the order of the variants and rounded at every
  addition.
\<close>

theorem create_stores_without_validation:
  "(case md5_prefix L nm now of
      None \<Rightarrow>
        create_ab_test L now s nm descr control tests metric level = Inl UnicodeEncodeError
    | Some digest \<Rightarrow>
        \<exists>t. create_ab_test L now s nm descr control tests metric level =
               Inr (''test_'' @ digest,
                    s\<lparr>active_tests := (active_tests s)(''test_'' @ digest \<mapsto> t)\<rparr>) \<and>
             status t = PLANNING \<and> control_variant t = control \<and> test_variants t = tests \<and>
             1000 \<le> minimum_sample_size t \<and> minimum_duration_days t = 7) \<and>
   start_test later s' tid =
     (case active_tests s' tid of
        None \<Rightarrow> (False, s')
      | Some t \<Rightarrow>
          if status t = PLANNING \<and>
             \<not> flt (py_float 0.01) (fabs (fsub (total_allocation t) (Finite 1))) \<and>
             100 \<le> minimum_sample_size t \<and> 1 \<le> minimum_duration_days t
          then (True,
                s'\<lparr>active_tests :=
                     (active_tests s')(tid \<mapsto> t\<lparr>status := RUNNING, started_at := Some later\<rparr>)\<rparr>)
          else (False, s'))"
proof -
  have create: "case md5_prefix L nm now of
      None \<Rightarrow>
        create_ab_test L now s nm descr control tests metric level = Inl UnicodeEncodeError
    | Some digest \<Rightarrow>
        \<exists>t. create_ab_test L now s nm descr control tests metric level =
               Inr (''test_'' @ digest,
                    s\<lparr>active_tests := (active_tests s)(''test_'' @ digest \<mapsto> t)\<rparr>) \<and>
             status t = PLANNING \<and> control_variant t = control \<and> test_variants t = tests \<and>
             1000 \<le> minimum_sample_size t \<and> minimum_duration_days t = 7"
  proof (cases "md5_prefix L nm now")
    case None
    then show ?thesis by (simp add: create_ab_test_unencodable)
  next
    case (Some digest)
    from create_ab_test_result [OF Some, of s descr control tests metric level]
    show ?thesis unfolding Some option.case by blast
  qed
  have start: "start_test later s' tid =
     (case active_tests s' tid of
        None \<Rightarrow> (False, s')
      | Some t \<Rightarrow>
          if status t = PLANNING \<and>
             \<not> flt (py_float 0.01) (fabs (fsub (total_allocation t) (Finite 1))) \<and>
             100 \<le> minimum_sample_size t \<and> 1 \<le> minimum_duration_days t
          then (True,
                s'\<lparr>active_tests :=
                     (active_tests s')(tid \<mapsto> t\<lparr>status := RUNNING, started_at := Some later\<rparr>)\<rparr>)
          else (False, s'))"
    by (auto simp: start_test_def validate_test_configuration_def split: option.splits)
  from create start show ?thesis by (rule conjI)
qed

theorem create_stores_without_validation_witness:
  "start_test day demo_planning demo_id =
     (True, init_manager\<lparr>active_tests :=
        [demo_id \<mapsto> demo_test\<lparr>status := RUNNING, started_at := Some day\<rparr>]\<rparr>) \<and>
   start_test day (init_manager\<lparr>active_tests := [demo_id \<mapsto> demo_test\<lparr>minimum_sample_size := 99\<rparr>]\<rparr>)
     demo_id =
     (False, init_manager\<lparr>active_tests := [demo_id \<mapsto> demo_test\<lparr>minimum_sample_size := 99\<rparr>]\<rparr>)"
proof -
  have sum: "total_allocation demo_test = Finite 1"
    "total_allocation (demo_test\<lparr>minimum_sample_size := 99\<rparr>) = Finite 1"
    by (simp_all add: total_allocation_def demo_test_def new_variant_def double_eval)
  have small: "\<not> flt (py_float 0.01) (fabs (fsub (Finite 1) (Finite 1)))"
    by (simp add: double_eval)
  from create_stores_without_validation
      [where s' = demo_planning and tid = demo_id and later = day and L = demo_libraries
         and nm = "''Homepage CTA Test''" and now = 0 and s = init_manager
         and descr = "''Testing new CTA button design''"
         and control = "new_variant ''control'' ''Original'' 0.5"
         and tests = "[new_variant ''test_v1'' ''New Design'' 0.5]"
         and metric = "''conversion_rate''" and level = MEDIUM]
    create_stores_without_validation
      [where s' = "init_manager\<lparr>active_tests := [demo_id \<mapsto> demo_test\<lparr>minimum_sample_size := 99\<rparr>]\<rparr>"
         and tid = demo_id and later = day and L = demo_libraries
         and nm = "''Homepage CTA Test''" and now = 0 and s = init_manager
         and descr = "''Testing new CTA button design''"
         and control = "new_variant ''control'' ''Original'' 0.5"
         and tests = "[new_variant ''test_v1'' ''New Design'' 0.5]"
         and metric = "''conversion_rate''" and level = MEDIUM]
    sum small
  show ?thesis
    by (simp add: demo_planning_def init_manager_def demo_test_def)
qed

text \<open>
  The claim as stated fails: two variants with an allocation of 0.9 each, whose float sum is
  1.8, are accepted by \<^verbatim>\<open>create_ab_test\<close>, and the test is stored in the planning state.
\<close>

theorem create_accepts_invalid_allocation:
  "create_ab_test demo_libraries 0 init_manager ''Homepage CTA Test''
     ''Testing new CTA button design''
     (new_variant ''control'' ''Original'' 0.9) [new_variant ''test_v1'' ''New Design'' 0.9]
     ''conversion_rate'' MEDIUM =
   Inr (demo_id,
        init_manager\<lparr>active_tests :=
          [demo_id \<mapsto> demo_test\<lparr>control_variant := new_variant ''control'' ''Original'' 0.9,
                                test_variants := [new_variant ''test_v1'' ''New Design'' 0.9]\<rparr>]\<rparr>) \<and>
   status (demo_test\<lparr>control_variant := new_variant ''control'' ''Original'' 0.9,
                     test_variants := [new_variant ''test_v1'' ''New Design'' 0.9]\<rparr>) = PLANNING \<and>
   total_allocation (demo_test\<lparr>control_variant := new_variant ''control'' ''Original'' 0.9,
                     test_variants := [new_variant ''test_v1'' ''New Design'' 0.9]\<rparr>) =
     py_float 1.8 \<and>
   flt (py_float 1.01) (py_float 1.8)"
  by (simp add: create_ab_test_def calculate_sample_size_def py_int_def
       minimum_detectable_effect_def total_allocation_def demo_defs Let_def double_eval)

text \<open>
  The allocation check at the boundary. Three variants with an allocation of 0.33 each have
  the float sum 0.99, and \<^verbatim>\<open>abs(0.99 - 1.0)\<close> is the float 0.010000000000000009, which is
  greater than the float 0.01: the test is not started. The same holds of the allocations
  0.7 and 0.31. The allocations 0.33, 0.33 and 0.34 are accepted.
\<close>

lemma allocation_check_at_boundary:
  "\<not> validate_test_configuration
       (demo_test\<lparr>control_variant := new_variant ''control'' ''Original'' 0.33,
                  test_variants := [new_variant ''test_v1'' ''New Design'' 0.33,
                                    new_variant ''test_v2'' ''Other Design'' 0.33]\<rparr>)"
  "\<not> validate_test_configuration
       (demo_test\<lparr>control_variant := new_variant ''control'' ''Original'' 0.7,
                  test_variants := [new_variant ''test_v1'' ''New Design'' 0.31]\<rparr>)"
  "validate_test_configuration
       (demo_test\<lparr>control_variant := new_variant ''control'' ''Original'' 0.33,
                  test_variants := [new_variant ''test_v1'' ''New Design'' 0.33,
                                    new_variant ''test_v2'' ''Other Design'' 0.34]\<rparr>)"
  by (simp_all add: validate_test_configuration_def total_allocation_def demo_test_def
        new_variant_def double_eval)

subsection \<open>Learning from a completed test\<close>

text \<open>
  Claim C7, at a failing input. The claim: a learning record is appended if and only if a
  test completes with \<open>statistical_significance\<close> true. On the demo test with a control
  variant that has 3200 visitors and no conversion, the visitor that brings the total to
  the minimum sample size makes the analysis significant, with the treatment variant as
  winner; the test is stopped and completes with \<open>statistical_significance\<close> true. The
  improvement then divides by the control's conversion rate, which is 0, the handler of
  \<^verbatim>\<open>_learn_from_test\<close> swallows the error, and the learning store stays empty.
\<close>

theorem significant_completion_without_record:
  "fst (record_visitor_interaction demo_libraries (8 * day) zero_control_running demo_id
          ''test_v1'' no_conversion) \<and>
   active_tests (snd (record_visitor_interaction demo_libraries (8 * day) zero_control_running
          demo_id ''test_v1'' no_conversion)) demo_id = None \<and>
   map_option status (completed_tests (snd (record_visitor_interaction demo_libraries (8 * day)
          zero_control_running demo_id ''test_v1'' no_conversion)) demo_id) = Some COMPLETED \<and>
   map_option statistical_significance (completed_tests (snd (record_visitor_interaction
          demo_libraries (8 * day) zero_control_running demo_id ''test_v1'' no_conversion)) demo_id) =
     Some True \<and>
   map_option winner_variant_id (completed_tests (snd (record_visitor_interaction
          demo_libraries (8 * day) zero_control_running demo_id ''test_v1'' no_conversion)) demo_id) =
     Some (Some ''test_v1'') \<and>
   learned_patterns (snd (record_visitor_interaction demo_libraries (8 * day)
          zero_control_running demo_id ''test_v1'' no_conversion)) = []"
  by (simp add: record_visitor_interaction_def find_variant_def update_variant_def
       check_early_stopping_def total_visitors_def calculate_engagement_score_def
       analyze_statistical_significance_def stat_test_def chi_square_test_def
       stop_test_def learn_from_test_def find_winner_def performance_improvement_of_def
       significance_threshold_def days_between_def day_def
       zero_control_running_def demo_defs Let_def)

subsection \<open>The two registries\<close>














subsection \<open>Running tests have started\<close>

text \<open>
  The early-stopping check applies the minimum duration only to a test whose start is
  recorded. Every running test has it recorded: the property holds of the manager as it is
  constructed, and creating, starting, recording and stopping preserve it, since
  \<^verbatim>\<open>start_test\<close> alone sets the status running and records the start with it.
\<close>

lemma started_when_running_init: "started_when_running init_manager"
  by (simp add: started_when_running_def init_manager_def)

lemma started_when_running_create:
  assumes inv: "started_when_running s"
    and made: "create_ab_test L now s nm descr control tests metric level = Inr (tid, s')"
  shows "started_when_running s'"
proof (cases "md5_prefix L nm now")
  case None
  with made show ?thesis by (simp add: create_ab_test_unencodable)
next
  case (Some digest)
  from create_ab_test_result [OF Some, of s descr control tests metric level]
  obtain t where t: "create_ab_test L now s nm descr control tests metric level =
      Inr (''test_'' @ digest, s\<lparr>active_tests := (active_tests s)(''test_'' @ digest \<mapsto> t)\<rparr>)"
    and planned: "status t = PLANNING"
    by blast
  from t made have "s' = s\<lparr>active_tests := (active_tests s)(tid \<mapsto> t)\<rparr>"
    by simp
  with inv planned show ?thesis
    by (simp add: started_when_running_def)
qed

lemma started_when_running_start:
  "started_when_running s \<Longrightarrow> started_when_running (snd (start_test now s tid))"
  by (auto simp: start_test_def started_when_running_def split: option.splits)

lemma started_when_running_stop:
  "started_when_running s \<Longrightarrow> started_when_running (snd (stop_test L now s tid))"
  by (cases "active_tests s tid")
     (auto simp: stop_test_inactive stop_test_active started_when_running_def)

lemma started_when_running_update:
  "started_when_running s \<Longrightarrow> active_tests s key = Some t \<Longrightarrow>
   status t' = status t \<Longrightarrow> started_at t' = started_at t \<Longrightarrow>
   started_when_running (s\<lparr>active_tests := (active_tests s)(key \<mapsto> t')\<rparr>)"
  by (auto simp: started_when_running_def)

lemma started_when_running_check:
  "started_when_running s \<Longrightarrow> started_when_running (check_early_stopping L now s key)"
proof (cases "active_tests s key")
  case None
  then show "started_when_running s \<Longrightarrow> ?thesis" by (simp add: check_early_stopping_def)
next
  case (Some t)
  assume inv: "started_when_running s"
  obtain res t' where an: "analyze_statistical_significance L t = (res, t')"
    by (cases "analyze_statistical_significance L t")
  then have "status t' = status t" "started_at t' = started_at t"
    using analyze_fields(2,3) [of L t] by simp_all
  with inv Some
  have upd: "started_when_running (s\<lparr>active_tests := (active_tests s)(key \<mapsto> t')\<rparr>)"
    by (rule started_when_running_update)
  from upd have "started_when_running
      (snd (stop_test L now (s\<lparr>active_tests := (active_tests s)(key \<mapsto> t')\<rparr>) (test_id t')))"
    by (rule started_when_running_stop)
  with inv upd Some an show ?thesis
    by (simp add: check_early_stopping_def Let_def split: option.splits)
qed

lemma set_variant_fields [simp]:
  "status (set_variant t r v) = status t"
  "started_at (set_variant t r v) = started_at t"
  "test_id (set_variant t r v) = test_id t"
  by (cases r; simp)+

lemma started_when_running_record:
  "started_when_running s \<Longrightarrow>
   started_when_running (snd (record_visitor_interaction L now s tid vid visitor_data))"
proof -
  assume inv: "started_when_running s"
  have upd: "started_when_running
      (s\<lparr>active_tests := (active_tests s)(tid \<mapsto> set_variant t r v)\<rparr>)"
    if "active_tests s tid = Some t" for t r v
    using inv that by (rule started_when_running_update) simp_all
  show ?thesis
    using inv upd
    by (simp add: record_visitor_interaction_def started_when_running_check
          split: option.splits sum.splits)
qed

subsection \<open>Learning needs significance\<close>

text \<open>
  No record is appended for a test whose \<open>statistical_significance\<close> is false, and no
  completion appends more than one.
\<close>

lemma learn_only_when_significant:
  "\<not> statistical_significance t \<Longrightarrow> learn_from_test now s t = s"
  by (simp add: learn_from_test_def)

lemma stop_test_without_significance:
  "active_tests s tid = Some t \<Longrightarrow> \<not> statistical_significance t \<Longrightarrow>
   learned_patterns (snd (stop_test L now s tid)) = learned_patterns s"
  by (simp add: stop_test_active learn_only_when_significant)

lemma learn_appends_at_most_one:
  "learn_from_test now s t = s \<or>
   (\<exists>u. learn_from_test now s t = s\<lparr>learned_patterns := learned_patterns s @ [u]\<rparr> \<and>
        source_test_id u = test_id t \<and> statistical_significance t)"
  by (auto simp: learn_from_test_def Let_def split: option.splits)

end
